theory Spec2Isabelle
  imports Main "HOL-Library.AList"
begin

section \<open>JavaScript values\<close>

text \<open>
  The storage utility module is JavaScript. A JavaScript string is a sequence of
  UTF-16 code units; the model covers the strings whose code units are below 256 and
  writes them as \<open>string\<close>, one \<open>char\<close> per code unit.

  A Number is an IEEE 754 double. The module only produces Numbers through
  \<open>parseInt\<close> and \<open>os.cpus().length\<close>, so the Numbers of the model are
  \<open>NaN\<close>, the two infinities and the integers (\<open>Num n\<close>; the two zeros are not
  told apart, \<open>-0 === 0\<close> holds). \<open>parseInt\<close> only ever yields integers that a
  double represents: \<open>numberValue\<close> below is the rounding that turns a mathematical
  integer into a Number.
\<close>

datatype jsnum = NaN | Num int | PosInfinity | NegInfinity

fun isNaN :: "jsnum \<Rightarrow> bool" where
  "isNaN NaN = True"
| "isNaN x = False"

text \<open>Unary minus, and the relational operator \<open>x <= y\<close> (false when either is \<open>NaN\<close>).\<close>

fun negate :: "jsnum \<Rightarrow> jsnum" where
  "negate NaN = NaN"
| "negate (Num n) = Num (- n)"
| "negate PosInfinity = NegInfinity"
| "negate NegInfinity = PosInfinity"

fun lessEq :: "jsnum \<Rightarrow> jsnum \<Rightarrow> bool" where
  "lessEq NaN y = False"
| "lessEq x NaN = False"
| "lessEq NegInfinity y = True"
| "lessEq x PosInfinity = True"
| "lessEq (Num a) (Num b) = (a \<le> b)"
| "lessEq x y = False"

subsection \<open>The Number value of an integer\<close>

text \<open>
  ECMAScript 5.1, 8.5: the Number value of a mathematical value is the double nearest
  to it, the one with an even significand when two are equally near, and an infinity
  when the rounded magnitude reaches \<open>2^1024\<close>. A double has a significand of 53 bits:
  a magnitude below \<open>2^53\<close> is kept; a magnitude of \<open>b\<close> bits is cut to its 53
  leading bits \<open>q\<close> and rounded on the \<open>e = b - 53\<close> bits \<open>r\<close> it loses.
\<close>

fun bitLength :: "nat \<Rightarrow> nat" where
  "bitLength m = (if m = 0 then 0 else bitLength (m div 2) + 1)"

definition roundToDouble :: "nat \<Rightarrow> nat" where
  "roundToDouble m =
     (if m < 2 ^ 53 then m
      else let e = bitLength m - 53;
               q = m div 2 ^ e;
               r = m mod 2 ^ e;
               h = 2 ^ (e - 1);
               q' = (if h < r \<or> (r = h \<and> odd q) then q + 1 else q)
           in q' * 2 ^ e)"

definition numberOfMagnitude :: "nat \<Rightarrow> jsnum" where
  "numberOfMagnitude m =
     (let v = roundToDouble m in if 2 ^ 1024 \<le> v then PosInfinity else Num (int v))"

definition numberValue :: "int \<Rightarrow> jsnum" where
  "numberValue n =
     (if n < 0 then negate (numberOfMagnitude (nat (- n))) else numberOfMagnitude (nat n))"

text \<open>
  An argument that the callers may leave out or pass as \<open>null\<close>: \<open>null\<close>,
  \<open>undefined\<close> or an object.
\<close>

datatype 'a jsarg = JNull | JUndefined | JObject 'a

text \<open>
  An object is the list of its own properties in insertion order; \<open>map_of\<close> reads a
  property (\<open>None\<close> when the object has none of that name) and \<open>AList.update\<close>
  is the assignment \<open>obj[k] = v\<close>.
\<close>

type_synonym 'v object = "(string \<times> 'v) list"

subsection \<open>parseInt with radix 10\<close>

text \<open>
  ECMAScript 5.1, 15.1.2.2, for the radix 10 that both call sites pass: drop the leading
  white space (\<open>StrWhiteSpaceChar\<close>: TAB, LF, VT, FF, CR, SP, NBSP below 256), read
  an optional sign, keep the longest prefix of decimal digits \<open>Z\<close>; the result is
  \<open>NaN\<close> when \<open>Z\<close> is empty and otherwise \<open>sign \<times> number\<close>, with
  \<open>number\<close> the Number value of the integer \<open>mathInt\<close> that \<open>Z\<close> denotes (V8,
  the engine of node, rounds every digit run correctly).
\<close>

definition isStrWhiteSpaceChar :: "char \<Rightarrow> bool" where
  "isStrWhiteSpaceChar c =
     (let n = (of_char c :: nat) in (9 \<le> n \<and> n \<le> 13) \<or> n = 32 \<or> n = 160)"

definition isDigit :: "char \<Rightarrow> bool" where
  "isDigit c = (let n = (of_char c :: nat) in 48 \<le> n \<and> n \<le> 57)"

definition digitValue :: "char \<Rightarrow> int" where
  "digitValue c = int (of_char c) - 48"

definition mathInt :: "string \<Rightarrow> int" where
  "mathInt Z = foldl (\<lambda>a c. 10 * a + digitValue c) 0 Z"

definition parseInt :: "string \<Rightarrow> jsnum" where
  "parseInt inputString =
     (let S = dropWhile isStrWhiteSpaceChar inputString;
          sign = (if S \<noteq> [] \<and> hd S = CHR ''-'' then - 1 else 1 :: int);
          S' = (if S \<noteq> [] \<and> (hd S = CHR ''+'' \<or> hd S = CHR ''-'') then tl S else S);
          Z = takeWhile isDigit S';
          number = numberValue (mathInt Z)
      in if Z = [] then NaN else if sign < 0 then negate number else number)"

section \<open>Configuration resolution\<close>

text \<open>
  \<open>cfg\<close> is the object \<open>utils.readConfig()\<close> returns. \<open>parseInt\<close> first
  converts its argument with \<open>ToString\<close>, so every property of \<open>cfg\<close> is kept as
  the \<open>ToString\<close> image of its value; reading a property the object does not have gives
  \<open>undefined\<close>, whose image is the text \<open>undefined\<close>.
\<close>

type_synonym config = "string object"

definition CONCURRENTCY_CONFIG_KEY_NAME :: string where
  "CONCURRENTCY_CONFIG_KEY_NAME = ''azure_storage_concurrency''"

definition OPERATION_TIMEOUT_CONFIG_KEY_NAME :: string where
  "OPERATION_TIMEOUT_CONFIG_KEY_NAME = ''azure_storage_timeout''"

definition cfgToString :: "config \<Rightarrow> string \<Rightarrow> string" where
  "cfgToString cfg k = (case map_of cfg k of None \<Rightarrow> ''undefined'' | Some s \<Rightarrow> s)"

text \<open>
  \<open>getDefaultRestConcurrency\<close>; \<open>cpuCount\<close> is \<open>os.cpus().length\<close>, the length
  of an array, which a double holds exactly.
\<close>

definition asyncTasksPerCoreMultiplier :: int where
  "asyncTasksPerCoreMultiplier = 1"

definition getDefaultRestConcurrency :: "nat \<Rightarrow> jsnum" where
  "getDefaultRestConcurrency cpuCount = Num (int cpuCount * asyncTasksPerCoreMultiplier)"

definition getRestConcurrency :: "config \<Rightarrow> nat \<Rightarrow> jsnum" where
  "getRestConcurrency cfg cpuCount =
     (let definedConcurrency = parseInt (cfgToString cfg CONCURRENTCY_CONFIG_KEY_NAME)
      in if isNaN definedConcurrency \<or> definedConcurrency = Num 0
         then getDefaultRestConcurrency cpuCount
         else definedConcurrency)"

text \<open>\<open>getRestOperationTimeout\<close>; \<open>None\<close> is the \<open>null\<close> it returns.\<close>

definition getRestOperationTimeout :: "config \<Rightarrow> jsnum option" where
  "getRestOperationTimeout cfg =
     (let definedTimeout = parseInt (cfgToString cfg OPERATION_TIMEOUT_CONFIG_KEY_NAME)
      in if isNaN definedTimeout \<or> lessEq definedTimeout (Num 0) then None
         else Some definedTimeout)"

subsection \<open>What a configuration text reads as\<close>

text \<open>
  The words of the specification: a text \<^emph>\<open>parses to\<close> the integer \<open>n\<close> when it is
  white space, an optional sign, a non-empty run of decimal digits with the value
  \<open>n\<close> in positional notation, and a rest that does not go on with a digit; it is
  \<^emph>\<open>non-numeric\<close> when it parses to no integer.
\<close>

definition decimalValue :: "string \<Rightarrow> int" where
  "decimalValue ds = (\<Sum>i<length ds. digitValue (ds ! i) * 10 ^ (length ds - Suc i))"

definition parsesTo :: "string \<Rightarrow> int \<Rightarrow> bool" where
  "parsesTo s n =
     (\<exists>ws sg ds rest. s = ws @ sg @ ds @ rest \<and> list_all isStrWhiteSpaceChar ws \<and>
        (sg = [] \<or> sg = ''+'' \<or> sg = ''-'') \<and> ds \<noteq> [] \<and> list_all isDigit ds \<and>
        (rest = [] \<or> \<not> isDigit (hd rest)) \<and>
        n = (if sg = ''-'' then - decimalValue ds else decimalValue ds))"

definition nonNumeric :: "string \<Rightarrow> bool" where
  "nonNumeric s = (\<not> (\<exists>n. parsesTo s n))"

text \<open>The integer a text parses to, computed from left to right; \<open>None\<close> when there is none.\<close>

definition denotedInt :: "string \<Rightarrow> int option" where
  "denotedInt s =
     (let body = dropWhile isStrWhiteSpaceChar s;
          negative = (body \<noteq> [] \<and> hd body = CHR ''-'');
          unsigned = (if body \<noteq> [] \<and> (hd body = CHR ''+'' \<or> hd body = CHR ''-'')
                      then tl body else body);
          ds = takeWhile isDigit unsigned
      in if ds = [] then None else Some (if negative then - mathInt ds else mathInt ds))"

section \<open>Module state and collaborators\<close>

text \<open>
  What the module throws: a \<open>TypeError\<close> of the language (tagged with the expression
  that raised it), a string thrown by the module itself, or a failure raised by a
  collaborator (the azure SDK, the remote call) and passed on.
\<close>

datatype 'e error = TypeError string | Thrown string | Raised 'e

text \<open>
  The values an options object holds; \<open>VObject\<close> stands for any nested object or
  function, by reference.
\<close>

datatype jsval = VUndefined | VNull | VBoolean bool | VNumber jsnum | VString string | VObject nat

definition getProperty :: "jsval object \<Rightarrow> string \<Rightarrow> jsval" where
  "getProperty obj k = (case map_of obj k of None \<Rightarrow> VUndefined | Some v \<Rightarrow> v)"

text \<open>\<open>x > 0\<close>.\<close>

fun greaterThanZero :: "jsnum \<Rightarrow> bool" where
  "greaterThanZero (Num n) = (0 < n)"
| "greaterThanZero PosInfinity = True"
| "greaterThanZero x = False"

text \<open>
  A property of a service handle is a method or some other value (\<open>Data b\<close>, with
  \<open>b\<close> its truthiness); a method takes the argument list to a failure or a result.
\<close>

datatype ('v, 'e) member = Data bool | Method "'v list \<Rightarrow> 'e + 'v"

type_synonym ('v, 'e) service = "('v, 'e) member object"

text \<open>
  The gate \<open>flows.funnel(max)\<close> returns belongs to the streamline library: calling it
  with a body is a parameter of the model, from the outcome of the body to the outcome
  the caller sees.
\<close>

type_synonym ('v, 'e) gate = "'e error + 'v \<Rightarrow> 'e error + 'v"

record StorageServiceSettings =
  settings_name :: string
  settings_key :: string
  settings_blobEndpointUri :: string
  settings_tableEndpointUri :: string
  settings_queueEndpointUri :: string

text \<open>
  The collaborators outside the module: \<open>utils.readConfig()\<close>,
  \<open>os.cpus().length\<close>, \<open>flows.funnel\<close>, the environment variable
  \<open>AZURE_STORAGE_CONNECTION_STRING\<close> and the azure SDK. A service constructor is
  called with no argument (\<open>None\<close>) or with the name, key and endpoint of the settings.
\<close>

record ('v, 'e) host =
  readConfig :: config
  cpus_length :: nat
  flows_funnel :: "jsnum \<Rightarrow> ('v, 'e) gate"
  env_CONNECTIONSTRING :: "string option"
  createFromConnectionString :: "string \<Rightarrow> 'e + StorageServiceSettings"
  createBlobService :: "(string \<times> string \<times> string) option \<Rightarrow> 'e + ('v, 'e) service"
  createTableService :: "(string \<times> string \<times> string) option \<Rightarrow> 'e + ('v, 'e) service"
  createQueueService :: "(string \<times> string \<times> string) option \<Rightarrow> 'e + ('v, 'e) service"

text \<open>
  The module variables \<open>restFunnel\<close> and \<open>operationTimeout\<close>, both \<open>null\<close>
  (\<open>None\<close>) until \<open>init\<close> runs. The variables \<open>cli\<close>, \<open>logger\<close> and
  \<open>progress\<close> only serve the progress display and are left out.
\<close>

record ('v, 'e) module_state =
  restFunnel :: "('v, 'e) gate option"
  operationTimeout :: "jsnum option"

definition init :: "('v, 'e) host \<Rightarrow> ('v, 'e) module_state \<Rightarrow> ('v, 'e) module_state" where
  "init h st =
     (let cfg = readConfig h;
          restConcurrency = getRestConcurrency cfg (cpus_length h)
      in st\<lparr>restFunnel := Some (flows_funnel h restConcurrency),
            operationTimeout := getRestOperationTimeout cfg\<rparr>)"

section \<open>Operation timeout injection\<close>

text \<open>
  \<open>setOperationTimeout\<close> mutates its argument; the model returns the object after the
  call. Reading a property of \<open>null\<close> or \<open>undefined\<close> is a \<open>TypeError\<close>. The
  test reads the property \<open>timeoutintervalInMs\<close> and the assignment writes
  \<open>timeoutIntervalInMs\<close>, as the source spells them.
\<close>

definition setOperationTimeout ::
  "('v, 'e) module_state \<Rightarrow> jsval object jsarg \<Rightarrow> 'e error + jsval object" where
  "setOperationTimeout st options =
     (case options of
        JNull \<Rightarrow> Inl (TypeError ''options.timeoutintervalInMs'')
      | JUndefined \<Rightarrow> Inl (TypeError ''options.timeoutintervalInMs'')
      | JObject obj \<Rightarrow>
          (case operationTimeout st of
             None \<Rightarrow> Inr obj
           | Some t \<Rightarrow>
               if getProperty obj ''timeoutintervalInMs'' = VUndefined \<and>
                  \<not> isNaN t \<and> greaterThanZero t
               then Inr (AList.update ''timeoutIntervalInMs'' (VNumber t) obj)
               else Inr obj))"

section \<open>Service resolution\<close>

text \<open>\<open>!connectionString\<close>: \<open>undefined\<close> and the empty string are falsy.\<close>

definition noConnectionString :: "string option \<Rightarrow> bool" where
  "noConnectionString connectionString = (connectionString = None \<or> connectionString = Some [])"

definition getStorageServiceSettings ::
  "('v, 'e) host \<Rightarrow> string option \<Rightarrow> 'e error + StorageServiceSettings option" where
  "getStorageServiceSettings h connectionString =
     (let connectionString' =
            (if noConnectionString connectionString then env_CONNECTIONSTRING h
             else connectionString)
      in case connectionString' of
           None \<Rightarrow> Inr None
         | Some str \<Rightarrow>
             if str = [] then Inr None
             else (case createFromConnectionString h str of
                     Inl e \<Rightarrow> Inl (Raised e)
                   | Inr serviceSettings \<Rightarrow> Inr (Some serviceSettings)))"

definition raised :: "'e + 'a \<Rightarrow> 'e error + 'a" where
  "raised r = (case r of Inl e \<Rightarrow> Inl (Raised e) | Inr x \<Rightarrow> Inr x)"

definition getBlobService :: "('v, 'e) host \<Rightarrow> string option \<Rightarrow> 'e error + ('v, 'e) service" where
  "getBlobService h connectionString =
     (case getStorageServiceSettings h connectionString of
        Inl e \<Rightarrow> Inl e
      | Inr None \<Rightarrow> raised (createBlobService h None)
      | Inr (Some serviceSettings) \<Rightarrow>
          raised (createBlobService h
            (Some (settings_name serviceSettings, settings_key serviceSettings,
                   settings_blobEndpointUri serviceSettings))))"

definition getTableService :: "('v, 'e) host \<Rightarrow> string option \<Rightarrow> 'e error + ('v, 'e) service" where
  "getTableService h connectionString =
     (case getStorageServiceSettings h connectionString of
        Inl e \<Rightarrow> Inl e
      | Inr None \<Rightarrow> raised (createTableService h None)
      | Inr (Some serviceSettings) \<Rightarrow>
          raised (createTableService h
            (Some (settings_name serviceSettings, settings_key serviceSettings,
                   settings_tableEndpointUri serviceSettings))))"

definition getQueueService :: "('v, 'e) host \<Rightarrow> string option \<Rightarrow> 'e error + ('v, 'e) service" where
  "getQueueService h connectionString =
     (case getStorageServiceSettings h connectionString of
        Inl e \<Rightarrow> Inl e
      | Inr None \<Rightarrow> raised (createQueueService h None)
      | Inr (Some serviceSettings) \<Rightarrow>
          raised (createQueueService h
            (Some (settings_name serviceSettings, settings_key serviceSettings,
                   settings_queueEndpointUri serviceSettings))))"

section \<open>The operation dispatcher\<close>

definition OperationType_Blob :: string where
  "OperationType_Blob = ''blob''"

definition OperationType_Queue :: string where
  "OperationType_Queue = ''queue''"

definition OperationType_Table :: string where
  "OperationType_Table = ''table''"

text \<open>
  The descriptor \<open>StorageOperation(type, operation)\<close>: both parameters are optional
  strings, \<open>None\<close> when left out.
\<close>

record StorageOperation =
  type :: "string option"
  operation :: "string option"

text \<open>\<open>x || ''\<close> for an optional string.\<close>

definition orEmpty :: "string option \<Rightarrow> string" where
  "orEmpty x = (case x of None \<Rightarrow> [] | Some s \<Rightarrow> s)"

text \<open>
  \<open>String.prototype.toLowerCase\<close> on code units below 256: the letters A to Z and
  the capitals of Latin-1 (192 to 222 but the multiplication sign 215) move up by 32.
\<close>

definition toLowerCaseChar :: "char \<Rightarrow> char" where
  "toLowerCaseChar c =
     (let n = (of_char c :: nat)
      in if (65 \<le> n \<and> n \<le> 90) \<or> (192 \<le> n \<and> n \<le> 222 \<and> n \<noteq> 215)
         then char_of (n + 32) else c)"

definition toLowerCase :: "string \<Rightarrow> string" where
  "toLowerCase s = map toLowerCaseChar s"

text \<open>\<open>!x\<close> and \<open>isFunction(x)\<close> for \<open>x = service[operation]\<close>.\<close>

fun falsy :: "('v, 'e) member option \<Rightarrow> bool" where
  "falsy None = True"
| "falsy (Some (Data b)) = (\<not> b)"
| "falsy (Some (Method f)) = False"

fun isFunction :: "('v, 'e) member option \<Rightarrow> bool" where
  "isFunction (Some (Method f)) = True"
| "isFunction func = False"

text \<open>
  \<open>service[operation].apply_(_, service, operationArgs)\<close>; calling what is not a
  function is a \<open>TypeError\<close>.
\<close>

fun applyMember :: "('v, 'e) member option \<Rightarrow> 'v list \<Rightarrow> 'e error + 'v" where
  "applyMember (Some (Method f)) operationArgs = raised (f operationArgs)"
| "applyMember func operationArgs = Inl (TypeError ''service[operation].apply_'')"

definition dquote :: string where
  "dquote = [CHR 0x22]"

text \<open>The \<open>switch\<close> on the lower-cased type, in the order of its cases.\<close>

definition selectService :: "('v, 'e) host \<Rightarrow> string \<Rightarrow> 'e error + ('v, 'e) service" where
  "selectService h type' =
     (if type' = OperationType_Blob then getBlobService h None
      else if type' = OperationType_Table then getTableService h None
      else if type' = OperationType_Queue then getQueueService h None
      else Inl (Thrown (''Invalid azure operation type : '' @ type')))"

text \<open>
  \<open>performStorageOperation(storageOperation, _, ...operationArgs)\<close>. The bare
  \<open>return\<close> of the first line is \<open>Inr None\<close>; \<open>return result\<close> is
  \<open>Inr (Some result)\<close>.
\<close>

definition performStorageOperation ::
  "('v, 'e) host \<Rightarrow> ('v, 'e) module_state \<Rightarrow> StorageOperation jsarg \<Rightarrow> 'v list \<Rightarrow>
     'e error + 'v option" where
  "performStorageOperation h st storageOperation operationArgs =
     (case storageOperation of
        JNull \<Rightarrow> Inr None
      | JUndefined \<Rightarrow> Inl (TypeError ''storageOperation.type'')
      | JObject so \<Rightarrow>
          (let type' = toLowerCase (orEmpty (type so));
               operation' = orEmpty (operation so)
           in case selectService h type' of
                Inl e \<Rightarrow> Inl e
              | Inr service \<Rightarrow>
                  if falsy (map_of service operation') \<or>
                     \<not> isFunction (map_of service operation')
                  then Inl (Thrown (''Invalid operation '' @ dquote @ operation' @ dquote @
                                     '' in '' @ type' @ '' service''))
                  else (case restFunnel st of
                          None \<Rightarrow> Inl (TypeError ''restFunnel'')
                        | Some gate \<Rightarrow>
                            (case gate (applyMember (map_of service operation') operationArgs) of
                               Inl e \<Rightarrow> Inl e
                             | Inr result \<Rightarrow> Inr (Some result)))))"

subsection \<open>The words of the specification about a descriptor\<close>

text \<open>
  A kind \<^emph>\<open>matches\<close> a service name \<^emph>\<open>case-insensitively\<close> when it has the same
  length and every character of it is the letter of the name or the capital of that
  letter. A method is \<^emph>\<open>absent or not invocable\<close> on a handle when the handle has no
  property of that name or the property is not a method.
\<close>

definition matchesIgnoringCase :: "string \<Rightarrow> string \<Rightarrow> bool" where
  "matchesIgnoringCase kind name' =
     list_all2 (\<lambda>c l. c = l \<or> (of_char c :: nat) + 32 = of_char l) kind name'"

definition recognizedKind :: "string \<Rightarrow> bool" where
  "recognizedKind kind =
     (matchesIgnoringCase kind ''blob'' \<or> matchesIgnoringCase kind ''queue'' \<or>
      matchesIgnoringCase kind ''table'')"

definition notInvocable :: "('v, 'e) service \<Rightarrow> string \<Rightarrow> bool" where
  "notInvocable service methodName =
     (map_of service methodName = None \<or> (\<exists>b. map_of service methodName = Some (Data b)))"

definition lowerLetter :: "char \<Rightarrow> bool" where
  "lowerLetter l = (97 \<le> (of_char l :: nat) \<and> (of_char l :: nat) \<le> 122)"

subsection \<open>A sample host\<close>

text \<open>
  A host for the concrete runs below: four CPUs, a configuration that sets the limit to
  8 and the timeout to 30000 ms, no connection string in the environment, a gate that
  runs its body at once, and one handle for all three services with the method
  \<open>createContainer\<close> and the non-method property \<open>apiVersion\<close>.
\<close>

definition sampleService :: "(string, string) service" where
  "sampleService =
     [(''createContainer'', Method (\<lambda>operationArgs. Inr ''created'')),
      (''apiVersion'', Data True)]"

definition sampleHost :: "(string, string) host" where
  "sampleHost =
     \<lparr>readConfig = [(CONCURRENTCY_CONFIG_KEY_NAME, ''8''),
                    (OPERATION_TIMEOUT_CONFIG_KEY_NAME, ''30000'')],
      cpus_length = 4,
      flows_funnel = (\<lambda>max body. body),
      env_CONNECTIONSTRING = None,
      createFromConnectionString = (\<lambda>connectionString. Inl ''malformed''),
      createBlobService = (\<lambda>settings. Inr sampleService),
      createTableService = (\<lambda>settings. Inr sampleService),
      createQueueService = (\<lambda>settings. Inr sampleService)\<rparr>"

definition initialState :: "(string, string) module_state" where
  "initialState = \<lparr>restFunnel = None, operationTimeout = None\<rparr>"

section \<open>Properties of the Number value\<close>

declare bitLength.simps [simp del]

lemma bitLength_0: "bitLength 0 = 0"
  by (simp add: bitLength.simps)

lemma bitLength_1: "bitLength (Suc 0) = 1"
  by (simp add: bitLength.simps)

lemma bitLength_numeral: "bitLength (numeral k) = bitLength (numeral k div 2) + 1"
  by (subst bitLength.simps) simp

lemma bitLength_bounds: "m \<noteq> 0 \<Longrightarrow> 2 ^ (bitLength m - 1) \<le> m \<and> m < 2 ^ bitLength m"
proof (induction m rule: bitLength.induct)
  case (1 m)
  show ?case
  proof (cases "m div 2 = 0")
    case True
    with 1 have "m = 1" by (cases m) auto
    then show ?thesis by (simp add: bitLength_1)
  next
    case False
    with 1 have ih: "2 ^ (bitLength (m div 2) - 1) \<le> m div 2"
      "m div 2 < 2 ^ bitLength (m div 2)"
      by auto
    have bl: "bitLength m = bitLength (m div 2) + 1"
      using 1(2) by (subst bitLength.simps) simp
    have "bitLength (m div 2) \<noteq> 0"
      using False by (subst bitLength.simps) simp
    then obtain b where b: "bitLength (m div 2) = Suc b"
      by (cases "bitLength (m div 2)") auto
    from ih b have lo: "2 ^ b \<le> m div 2" and hi: "m div 2 < 2 * 2 ^ b"
      by simp_all
    from lo have "2 * 2 ^ b \<le> m" by linarith
    moreover from hi have "m < 2 * (2 * 2 ^ b)" by linarith
    ultimately show ?thesis
      using bl b by simp
  qed
qed

lemma roundToDouble_small: "m < 2 ^ 53 \<Longrightarrow> roundToDouble m = m"
  by (simp add: roundToDouble_def)

lemma roundToDouble_positive:
  assumes "0 < m"
  shows "0 < roundToDouble m"
proof (cases "m < 2 ^ 53")
  case True
  with assms show ?thesis by (simp add: roundToDouble_def)
next
  case False
  define e where "e = bitLength m - 53"
  have "2 ^ (bitLength m - 1) \<le> m"
    using assms bitLength_bounds [of m] by simp
  moreover have "(2::nat) ^ e \<le> 2 ^ (bitLength m - 1)"
    unfolding e_def by (rule power_increasing) simp_all
  ultimately have "2 ^ e \<le> m" by linarith
  then have "0 < m div 2 ^ e"
    by (simp add: div_greater_zero_iff)
  then show ?thesis
    using False unfolding roundToDouble_def Let_def e_def [symmetric] by simp
qed

lemmas number_eval =
  numberValue_def numberOfMagnitude_def roundToDouble_def Let_def
  bitLength_0 bitLength_1 bitLength_numeral

lemma numberOfMagnitude_exact: "m \<le> 2 ^ 53 \<Longrightarrow> numberOfMagnitude m = Num (int m)"
proof (cases "m < 2 ^ 53")
  case True
  then have "roundToDouble m = m" by (rule roundToDouble_small)
  moreover have "\<not> (2::nat) ^ 1024 \<le> m"
  proof -
    have "(2::nat) ^ 53 \<le> 2 ^ 1024" by (rule power_increasing) simp_all
    with True show ?thesis by linarith
  qed
  ultimately show ?thesis by (simp add: numberOfMagnitude_def)
next
  case False
  assume "m \<le> 2 ^ 53"
  with False have m: "m = 9007199254740992" by simp
  show ?thesis unfolding m by (simp add: number_eval)
qed

lemma numberOfMagnitude_cases:
  "numberOfMagnitude m = PosInfinity \<or> numberOfMagnitude m = Num (int (roundToDouble m))"
  by (simp add: numberOfMagnitude_def Let_def)

lemma numberValue_zero: "numberValue 0 = Num 0"
  by (simp add: numberValue_def numberOfMagnitude_def roundToDouble_def)

lemma numberValue_positive:
  assumes "0 < n"
  shows "numberValue n = PosInfinity \<or> (\<exists>v. 0 < v \<and> numberValue n = Num v)"
proof -
  have "0 < roundToDouble (nat n)"
    using assms by (intro roundToDouble_positive) simp
  then show ?thesis
    using assms numberOfMagnitude_cases [of "nat n"] by (auto simp add: numberValue_def)
qed

lemma numberValue_negative:
  assumes "n < 0"
  shows "numberValue n = NegInfinity \<or> (\<exists>v. v < 0 \<and> numberValue n = Num v)"
proof -
  have "0 < roundToDouble (nat (- n))"
    using assms by (intro roundToDouble_positive) simp
  then show ?thesis
    using assms numberOfMagnitude_cases [of "nat (- n)"] by (auto simp add: numberValue_def)
qed

lemma numberValue_exact:
  assumes "\<bar>n\<bar> \<le> 2 ^ 53"
  shows "numberValue n = Num n"
proof (cases "n < 0")
  case True
  with assms have "nat (- n) \<le> 2 ^ 53" by simp
  then have "numberOfMagnitude (nat (- n)) = Num (int (nat (- n)))"
    by (rule numberOfMagnitude_exact)
  with True show ?thesis by (simp add: numberValue_def)
next
  case False
  with assms have "nat n \<le> 2 ^ 53" by simp
  then have "numberOfMagnitude (nat n) = Num (int (nat n))"
    by (rule numberOfMagnitude_exact)
  with False show ?thesis by (simp add: numberValue_def)
qed

lemma negate_negate: "negate (negate x) = x"
  by (cases x) simp_all

lemma negate_numberValue: "negate (numberValue m) = numberValue (- m)"
proof -
  consider "m < 0" | "m = 0" | "0 < m" by linarith
  then show ?thesis
  proof cases
    case 1
    then show ?thesis by (simp add: numberValue_def negate_negate)
  next
    case 2
    then show ?thesis by (simp add: numberValue_zero)
  next
    case 3
    then show ?thesis by (simp add: numberValue_def)
  qed
qed

lemma numberValue_not_NaN: "\<not> isNaN (numberValue n)"
proof -
  consider "n < 0" | "n = 0" | "0 < n" by linarith
  then show ?thesis
  proof cases
    case 1
    with numberValue_negative [of n] show ?thesis by auto
  next
    case 2
    then show ?thesis by (simp add: numberValue_zero)
  next
    case 3
    with numberValue_positive [of n] show ?thesis by auto
  qed
qed

lemma numberValue_eq_zero_iff: "(numberValue n = Num 0) = (n = 0)"
proof -
  consider "n < 0" | "n = 0" | "0 < n" by linarith
  then show ?thesis
  proof cases
    case 1
    with numberValue_negative [of n] show ?thesis by auto
  next
    case 2
    then show ?thesis by (simp add: numberValue_zero)
  next
    case 3
    with numberValue_positive [of n] show ?thesis by auto
  qed
qed

lemma numberValue_lessEq_zero_iff: "lessEq (numberValue n) (Num 0) = (n \<le> 0)"
proof -
  consider "n < 0" | "n = 0" | "0 < n" by linarith
  then show ?thesis
  proof cases
    case 1
    with numberValue_negative [of n] show ?thesis by auto
  next
    case 2
    then show ?thesis by (simp add: numberValue_zero)
  next
    case 3
    with numberValue_positive [of n] show ?thesis by auto
  qed
qed


text \<open>
  The rounding is to a nearest double: past \<open>2^53\<close> the result is a multiple of the
  spacing \<open>2^e\<close> of the doubles at that magnitude and lies within half a spacing.
\<close>

lemma bitLength_large: "2 ^ 53 \<le> m \<Longrightarrow> 53 < bitLength m"
proof -
  assume m: "2 ^ 53 \<le> m"
  then have "m \<noteq> 0" by auto
  then have "m < 2 ^ bitLength m" using bitLength_bounds by blast
  with m have "(2::nat) ^ 53 < 2 ^ bitLength m" by linarith
  then show ?thesis by (simp only: power_strict_increasing_iff [of 2] one_less_numeral_iff
        semiring_norm)
qed

lemma roundToDouble_nearest:
  assumes m: "2 ^ 53 \<le> m"
  shows "2 ^ (bitLength m - 53) dvd roundToDouble m \<and>
         2 * \<bar>int (roundToDouble m) - int m\<bar> \<le> 2 ^ (bitLength m - 53)"
proof -
  define e where "e = bitLength m - 53"
  define q where "q = m div 2 ^ e"
  define r where "r = m mod 2 ^ e"
  define h :: nat where "h = 2 ^ (e - 1)"
  have "0 < e" using bitLength_large [OF m] by (simp add: e_def)
  then have hh: "2 * h = 2 ^ e"
    unfolding h_def by (cases e) simp_all
  have split: "m = q * 2 ^ e + r"
    unfolding q_def r_def by (rule div_mult_mod_eq [symmetric])
  have r: "r < 2 ^ e"
    by (simp add: r_def)
  have big: "\<not> m < 2 ^ 53" using m by simp
  have im: "int m = int q * 2 ^ e + int r"
    by (subst split) simp
  have ih: "2 * int h = 2 ^ e"
    using hh by (metis of_nat_mult of_nat_numeral of_nat_power)
  have "2 ^ e dvd roundToDouble m \<and> 2 * \<bar>int (roundToDouble m) - int m\<bar> \<le> 2 ^ e"
  proof (cases "h < r \<or> (r = h \<and> odd q)")
    case True
    then have v: "roundToDouble m = (q + 1) * 2 ^ e"
      using big unfolding roundToDouble_def Let_def e_def [symmetric] q_def [symmetric]
        r_def [symmetric] h_def [symmetric]
      by simp
    then have iv: "int (roundToDouble m) = (int q + 1) * 2 ^ e" by (simp add: algebra_simps)
    from True have "int h \<le> int r" by auto
    moreover have "int r < 2 ^ e" using r by (metis of_nat_less_iff of_nat_numeral of_nat_power)
    ultimately have "2 * \<bar>int (roundToDouble m) - int m\<bar> \<le> 2 ^ e"
      unfolding iv im using ih by (simp add: algebra_simps)
    moreover have "2 ^ e dvd roundToDouble m" unfolding v by simp
    ultimately show ?thesis by simp
  next
    case False
    then have v: "roundToDouble m = q * 2 ^ e"
      using big unfolding roundToDouble_def Let_def e_def [symmetric] q_def [symmetric]
        r_def [symmetric] h_def [symmetric]
      by simp
    then have iv: "int (roundToDouble m) = int q * 2 ^ e" by simp
    from False have "int r \<le> int h" by auto
    then have "2 * \<bar>int (roundToDouble m) - int m\<bar> \<le> 2 ^ e"
      unfolding iv im using ih by (simp add: algebra_simps)
    moreover have "2 ^ e dvd roundToDouble m" unfolding v by simp
    ultimately show ?thesis by simp
  qed
  then show ?thesis by (simp only: e_def)
qed

section \<open>Properties of the configuration resolution\<close>

subsection \<open>The digits of a text\<close>

lemma mathInt_snoc: "mathInt (ds @ [d]) = 10 * mathInt ds + digitValue d"
  by (simp add: mathInt_def)

lemma decimalValue_snoc: "decimalValue (ds @ [d]) = 10 * decimalValue ds + digitValue d"
proof -
  have "(\<Sum>i<length ds. digitValue ((ds @ [d]) ! i) * 10 ^ (length (ds @ [d]) - Suc i))
      = (\<Sum>i<length ds. 10 * (digitValue (ds ! i) * 10 ^ (length ds - Suc i)))"
  proof (rule sum.cong)
    fix i assume "i \<in> {..<length ds}"
    then have i: "i < length ds" by simp
    then have "length (ds @ [d]) - Suc i = Suc (length ds - Suc i)" by simp
    with i show "digitValue ((ds @ [d]) ! i) * 10 ^ (length (ds @ [d]) - Suc i)
        = 10 * (digitValue (ds ! i) * 10 ^ (length ds - Suc i))"
      by (simp add: nth_append)
  qed simp
  then show ?thesis
    by (simp add: decimalValue_def sum_distrib_left)
qed

lemma mathInt_decimalValue: "mathInt ds = decimalValue ds"
proof (induction ds rule: rev_induct)
  case Nil
  show ?case by (simp add: mathInt_def decimalValue_def)
next
  case (snoc d ds)
  then show ?case by (simp add: mathInt_snoc decimalValue_snoc)
qed

lemma sign_not_space: "\<not> isStrWhiteSpaceChar CHR ''+''" "\<not> isStrWhiteSpaceChar CHR ''-''"
  by (simp_all add: isStrWhiteSpaceChar_def)

lemma sign_not_digit: "\<not> isDigit CHR ''+''" "\<not> isDigit CHR ''-''"
  by (simp_all add: isDigit_def)

lemma digit_not_space: "isDigit c \<Longrightarrow> \<not> isStrWhiteSpaceChar c"
  by (auto simp add: isDigit_def isStrWhiteSpaceChar_def Let_def)

lemma digit_not_sign: "isDigit c \<Longrightarrow> c \<noteq> CHR ''+'' \<and> c \<noteq> CHR ''-''"
  using sign_not_digit by auto

lemma takeWhile_run:
  "list_all P xs \<Longrightarrow> ys = [] \<or> \<not> P (hd ys) \<Longrightarrow> takeWhile P (xs @ ys) = xs"
  by (induction xs) (cases ys; auto)+

lemma dropWhile_run:
  "list_all P xs \<Longrightarrow> ys = [] \<or> \<not> P (hd ys) \<Longrightarrow> dropWhile P (xs @ ys) = ys"
  by (induction xs) (cases ys; auto)+

subsection \<open>The integer a text parses to\<close>

lemma denotedInt_of_text:
  assumes ws: "list_all isStrWhiteSpaceChar ws"
    and sg: "sg = [] \<or> sg = ''+'' \<or> sg = ''-''"
    and ds: "ds \<noteq> []" "list_all isDigit ds"
    and rest: "rest = [] \<or> \<not> isDigit (hd rest)"
  shows "denotedInt (ws @ sg @ ds @ rest) =
           Some (if sg = ''-'' then - decimalValue ds else decimalValue ds)"
proof -
  obtain d ds' where d: "ds = d # ds'" "isDigit d"
    using ds by (cases ds) auto
  have hd_body: "\<not> isStrWhiteSpaceChar (hd (sg @ ds @ rest))"
    using sg d digit_not_space sign_not_space by auto
  have S: "dropWhile isStrWhiteSpaceChar (ws @ sg @ ds @ rest) = sg @ ds @ rest"
    using ws hd_body by (intro dropWhile_run) auto
  have Z: "takeWhile isDigit (ds @ rest) = ds"
    using ds rest by (intro takeWhile_run) auto
  from sg show ?thesis
  proof (elim disjE)
    assume "sg = []"
    then show ?thesis
      using S Z d digit_not_sign[OF d(2)] ds(1)
      by (simp add: denotedInt_def Let_def mathInt_decimalValue)
  next
    assume "sg = ''+''"
    then show ?thesis
      using S Z ds(1) by (simp add: denotedInt_def Let_def mathInt_decimalValue)
  next
    assume "sg = ''-''"
    then show ?thesis
      using S Z ds(1) by (simp add: denotedInt_def Let_def mathInt_decimalValue)
  qed
qed

lemma denotedInt_parsesTo:
  assumes p: "denotedInt s = Some n"
  shows "parsesTo s n"
proof -
  define ws where "ws = takeWhile isStrWhiteSpaceChar s"
  define S where "S = dropWhile isStrWhiteSpaceChar s"
  define sg where
    "sg = (if S \<noteq> [] \<and> (hd S = CHR ''+'' \<or> hd S = CHR ''-'') then [hd S] else [])"
  define S' where
    "S' = (if S \<noteq> [] \<and> (hd S = CHR ''+'' \<or> hd S = CHR ''-'') then tl S else S)"
  define ds where "ds = takeWhile isDigit S'"
  define rest where "rest = dropWhile isDigit S'"
  have s: "s = ws @ sg @ ds @ rest"
    unfolding ws_def sg_def ds_def rest_def S'_def S_def[symmetric]
    by (simp add: S_def)
  have 1: "list_all isStrWhiteSpaceChar ws"
    unfolding ws_def list_all_iff by (auto dest: set_takeWhileD)
  have 2: "sg = [] \<or> sg = ''+'' \<or> sg = ''-''"
    unfolding sg_def by auto
  have 3: "list_all isDigit ds"
    unfolding ds_def list_all_iff by (auto dest: set_takeWhileD)
  have 4: "rest = [] \<or> \<not> isDigit (hd rest)"
    unfolding rest_def using hd_dropWhile[of isDigit S'] by blast
  have 5: "ds \<noteq> []"
    using p unfolding denotedInt_def Let_def ds_def S'_def S_def
    by (auto split: if_splits)
  have "denotedInt s = Some (if sg = ''-'' then - decimalValue ds else decimalValue ds)"
    unfolding s using 1 2 5 3 4 by (rule denotedInt_of_text)
  with p have "n = (if sg = ''-'' then - decimalValue ds else decimalValue ds)"
    by simp
  with s 1 2 3 4 5 show "parsesTo s n"
    unfolding parsesTo_def by blast
qed

lemma parsesTo_denotedInt: "parsesTo s n \<Longrightarrow> denotedInt s = Some n"
  unfolding parsesTo_def using denotedInt_of_text by blast

lemma denotedInt_Some_iff: "denotedInt s = Some n \<longleftrightarrow> parsesTo s n"
  using denotedInt_parsesTo parsesTo_denotedInt by blast

lemma denotedInt_None_iff: "denotedInt s = None \<longleftrightarrow> nonNumeric s"
proof (cases "denotedInt s")
  case None
  then show ?thesis
    unfolding nonNumeric_def using parsesTo_denotedInt by fastforce
next
  case (Some n)
  then show ?thesis
    unfolding nonNumeric_def using denotedInt_parsesTo by fastforce
qed


subsection \<open>parseInt yields the Number value of what the text parses to\<close>

lemma parseInt_denotedInt:
  "parseInt s = (case denotedInt s of None \<Rightarrow> NaN | Some n \<Rightarrow> numberValue n)"
  by (simp add: parseInt_def denotedInt_def Let_def negate_numberValue)

lemma parseInt_parsesTo: "parsesTo s n \<Longrightarrow> parseInt s = numberValue n"
  by (simp add: parseInt_denotedInt parsesTo_denotedInt)

lemma parseInt_nonNumeric: "nonNumeric s \<Longrightarrow> parseInt s = NaN"
  by (simp add: parseInt_denotedInt denotedInt_None_iff [symmetric])

lemmas denotedInt_eval =
  denotedInt_def isStrWhiteSpaceChar_def isDigit_def mathInt_def digitValue_def Let_def

lemma parseInt_undefined: "parseInt ''undefined'' = NaN"
  by (simp add: parseInt_denotedInt denotedInt_eval)

lemma cfgToString_absent: "map_of cfg k = None \<Longrightarrow> cfgToString cfg k = ''undefined''"
  by (simp add: cfgToString_def)

lemma cfgToString_present: "map_of cfg k = Some s \<Longrightarrow> cfgToString cfg k = s"
  by (simp add: cfgToString_def)

lemma getDefaultRestConcurrency_eq: "getDefaultRestConcurrency cpuCount = Num (int cpuCount * 1)"
  by (simp add: getDefaultRestConcurrency_def asyncTasksPerCoreMultiplier_def)

lemma getRestConcurrency_absent:
  "map_of cfg CONCURRENTCY_CONFIG_KEY_NAME = None \<Longrightarrow>
     getRestConcurrency cfg cpuCount = Num (int cpuCount * 1)"
  by (simp add: getRestConcurrency_def cfgToString_absent parseInt_undefined
      getDefaultRestConcurrency_eq)

lemma getRestConcurrency_nonNumeric:
  "map_of cfg CONCURRENTCY_CONFIG_KEY_NAME = Some s \<Longrightarrow> nonNumeric s \<Longrightarrow>
     getRestConcurrency cfg cpuCount = Num (int cpuCount * 1)"
  by (simp add: getRestConcurrency_def cfgToString_present parseInt_nonNumeric
      getDefaultRestConcurrency_eq)

lemma getRestConcurrency_parsed:
  "map_of cfg CONCURRENTCY_CONFIG_KEY_NAME = Some s \<Longrightarrow> parsesTo s n \<Longrightarrow>
     getRestConcurrency cfg cpuCount =
       (if n = 0 then Num (int cpuCount * 1) else numberValue n)"
  using numberValue_not_NaN [of n]
  by (simp add: getRestConcurrency_def cfgToString_present parseInt_parsesTo
      getDefaultRestConcurrency_eq numberValue_eq_zero_iff)

lemma getRestOperationTimeout_absent:
  "map_of cfg OPERATION_TIMEOUT_CONFIG_KEY_NAME = None \<Longrightarrow> getRestOperationTimeout cfg = None"
  by (simp add: getRestOperationTimeout_def cfgToString_absent parseInt_undefined)

lemma getRestOperationTimeout_nonNumeric:
  "map_of cfg OPERATION_TIMEOUT_CONFIG_KEY_NAME = Some s \<Longrightarrow> nonNumeric s \<Longrightarrow>
     getRestOperationTimeout cfg = None"
  by (simp add: getRestOperationTimeout_def cfgToString_present parseInt_nonNumeric)

lemma getRestOperationTimeout_parsed:
  "map_of cfg OPERATION_TIMEOUT_CONFIG_KEY_NAME = Some s \<Longrightarrow> parsesTo s n \<Longrightarrow>
     getRestOperationTimeout cfg = (if n \<le> 0 then None else Some (numberValue n))"
  using numberValue_not_NaN [of n]
  by (simp add: getRestOperationTimeout_def cfgToString_present parseInt_parsesTo
      numberValue_lessEq_zero_iff)

subsection \<open>Two long digit runs\<close>

text \<open>
  \<open>2^53 + 1\<close>, the first integer that no double holds, and a one followed by 309
  zeros, beyond the range of the doubles.
\<close>

lemma parsesTo_2_53_1: "parsesTo ''9007199254740993'' 9007199254740993"
  by (simp add: denotedInt_Some_iff [symmetric] denotedInt_eval)

lemma numberValue_2_53_1: "numberValue 9007199254740993 = Num 9007199254740992"
  by (simp add: number_eval)

lemma decimalValue_one_zeros: "decimalValue (CHR ''1'' # replicate k CHR ''0'') = 10 ^ k"
proof (induction k)
  case 0
  show ?case by (simp add: decimalValue_def digitValue_def)
next
  case (Suc k)
  have "CHR ''1'' # replicate (Suc k) CHR ''0'' = (CHR ''1'' # replicate k CHR ''0'') @ [CHR ''0'']"
    by (simp add: replicate_append_same)
  then have "decimalValue (CHR ''1'' # replicate (Suc k) CHR ''0'') =
      10 * decimalValue (CHR ''1'' # replicate k CHR ''0'') + digitValue CHR ''0''"
    by (simp only: decimalValue_snoc)
  then show ?case
    using Suc by (simp add: digitValue_def)
qed

lemma parsesTo_one_zeros: "parsesTo (CHR ''1'' # replicate k CHR ''0'') (10 ^ k)"
proof -
  have "list_all isDigit (CHR ''1'' # replicate k CHR ''0'')"
    by (simp add: isDigit_def list_all_iff)
  then have "denotedInt ([] @ [] @ (CHR ''1'' # replicate k CHR ''0'') @ []) =
      Some (if [] = ''-'' then - decimalValue (CHR ''1'' # replicate k CHR ''0'')
            else decimalValue (CHR ''1'' # replicate k CHR ''0''))"
    by (intro denotedInt_of_text) simp_all
  then show ?thesis
    by (simp add: denotedInt_Some_iff [symmetric] decimalValue_one_zeros)
qed

lemma numberValue_10_309: "numberValue (10 ^ 309) = PosInfinity"
  by (simp add: number_eval)

lemmas parseInt_eval = parseInt_denotedInt denotedInt_eval number_eval

subsection \<open>The concurrency limit\<close>

text \<open>
  Claim C3, as stated. The claim that a configured integer is returned as it is fails
  for the digit runs that no double holds: \<open>2^53 + 1\<close> comes back as \<open>2^53\<close>, and a
  one followed by 309 zeros comes back as \<open>Infinity\<close>, which is no integer at all.
\<close>

theorem getRestConcurrency_rounding_counterexample:
  "parsesTo ''9007199254740993'' 9007199254740993 \<and>
   getRestConcurrency [(CONCURRENTCY_CONFIG_KEY_NAME, ''9007199254740993'')] 4
     = Num 9007199254740992 \<and>
   getRestConcurrency [(CONCURRENTCY_CONFIG_KEY_NAME, ''9007199254740993'')] 4
     \<noteq> Num 9007199254740993 \<and>
   parsesTo (CHR ''1'' # replicate 309 CHR ''0'') (10 ^ 309) \<and>
   getRestConcurrency [(CONCURRENTCY_CONFIG_KEY_NAME, CHR ''1'' # replicate 309 CHR ''0'')] 4
     = PosInfinity"
proof -
  have a: "getRestConcurrency [(CONCURRENTCY_CONFIG_KEY_NAME, ''9007199254740993'')] 4
      = Num 9007199254740992"
    using getRestConcurrency_parsed
      [of "[(CONCURRENTCY_CONFIG_KEY_NAME, ''9007199254740993'')]" "''9007199254740993''"
        9007199254740993 4]
      parsesTo_2_53_1
    by (simp add: numberValue_2_53_1)
  then have a': "getRestConcurrency [(CONCURRENTCY_CONFIG_KEY_NAME, ''9007199254740993'')] 4
      \<noteq> Num 9007199254740993"
    by simp
  have m: "map_of [(CONCURRENTCY_CONFIG_KEY_NAME, CHR ''1'' # replicate 309 CHR ''0'')]
      CONCURRENTCY_CONFIG_KEY_NAME = Some (CHR ''1'' # replicate 309 CHR ''0'')"
    by simp
  have nz: "(10::int) ^ 309 \<noteq> 0" by simp
  have "getRestConcurrency
      [(CONCURRENTCY_CONFIG_KEY_NAME, CHR ''1'' # replicate 309 CHR ''0'')] 4
      = numberValue (10 ^ 309)"
    using getRestConcurrency_parsed [OF m parsesTo_one_zeros [of 309], of 4] nz
    by (simp only: if_False)
  then have b: "getRestConcurrency
      [(CONCURRENTCY_CONFIG_KEY_NAME, CHR ''1'' # replicate 309 CHR ''0'')] 4 = PosInfinity"
    by (simp only: numberValue_10_309)
  from parsesTo_2_53_1 a a' parsesTo_one_zeros [of 309] b show ?thesis
    by (intro conjI)
qed

text \<open>
  Claim C3, amended. When the concurrency key is absent, non-numeric or parses to exactly
  zero, \<open>getRestConcurrency\<close> returns \<open>cpuCount \<times> 1\<close>; when it parses to any other
  integer \<open>n\<close>, negative ones included, it returns the Number value of \<open>n\<close> as it
  is, which is \<open>n\<close> itself whenever \<open>\<bar>n\<bar> \<le> 2^53\<close>.
\<close>

theorem getRestConcurrency_resolution:
  "(map_of cfg CONCURRENTCY_CONFIG_KEY_NAME = None \<longrightarrow>
      getRestConcurrency cfg cpuCount = Num (int cpuCount * 1)) \<and>
   (map_of cfg CONCURRENTCY_CONFIG_KEY_NAME = Some s \<and> nonNumeric s \<longrightarrow>
      getRestConcurrency cfg cpuCount = Num (int cpuCount * 1)) \<and>
   (map_of cfg CONCURRENTCY_CONFIG_KEY_NAME = Some s \<and> parsesTo s 0 \<longrightarrow>
      getRestConcurrency cfg cpuCount = Num (int cpuCount * 1)) \<and>
   (map_of cfg CONCURRENTCY_CONFIG_KEY_NAME = Some s \<and> parsesTo s n \<and> n \<noteq> 0 \<longrightarrow>
      getRestConcurrency cfg cpuCount = numberValue n) \<and>
   (map_of cfg CONCURRENTCY_CONFIG_KEY_NAME = Some s \<and> parsesTo s n \<and> n \<noteq> 0 \<and>
      \<bar>n\<bar> \<le> 2 ^ 53 \<longrightarrow>
      getRestConcurrency cfg cpuCount = Num n)"
proof (intro conjI impI)
  assume "map_of cfg CONCURRENTCY_CONFIG_KEY_NAME = None"
  then show "getRestConcurrency cfg cpuCount = Num (int cpuCount * 1)"
    by (rule getRestConcurrency_absent)
next
  assume "map_of cfg CONCURRENTCY_CONFIG_KEY_NAME = Some s \<and> nonNumeric s"
  then show "getRestConcurrency cfg cpuCount = Num (int cpuCount * 1)"
    using getRestConcurrency_nonNumeric by blast
next
  assume "map_of cfg CONCURRENTCY_CONFIG_KEY_NAME = Some s \<and> parsesTo s 0"
  then show "getRestConcurrency cfg cpuCount = Num (int cpuCount * 1)"
    using getRestConcurrency_parsed [of cfg s 0 cpuCount] by simp
next
  assume "map_of cfg CONCURRENTCY_CONFIG_KEY_NAME = Some s \<and> parsesTo s n \<and> n \<noteq> 0"
  then show "getRestConcurrency cfg cpuCount = numberValue n"
    using getRestConcurrency_parsed [of cfg s n cpuCount] by simp
next
  assume "map_of cfg CONCURRENTCY_CONFIG_KEY_NAME = Some s \<and> parsesTo s n \<and> n \<noteq> 0 \<and>
    \<bar>n\<bar> \<le> 2 ^ 53"
  then show "getRestConcurrency cfg cpuCount = Num n"
    using getRestConcurrency_parsed [of cfg s n cpuCount] numberValue_exact [of n] by simp
qed

text \<open>
  The scenarios of the specification on a host with four CPUs: the key unset, a text
  with no number, \<open>0\<close>, \<open>8\<close>, the negative \<open>-3\<close>, and \<open>2^53 + 1\<close>.
\<close>

theorem getRestConcurrency_resolution_witness:
  "getRestConcurrency [] 4 = Num 4 \<and>
   nonNumeric ''many'' \<and>
   getRestConcurrency [(CONCURRENTCY_CONFIG_KEY_NAME, ''many'')] 4 = Num 4 \<and>
   parsesTo ''0'' 0 \<and>
   getRestConcurrency [(CONCURRENTCY_CONFIG_KEY_NAME, ''0'')] 4 = Num 4 \<and>
   parsesTo ''8'' 8 \<and>
   getRestConcurrency [(CONCURRENTCY_CONFIG_KEY_NAME, ''8'')] 4 = Num 8 \<and>
   parsesTo '' -3 threads'' (- 3) \<and>
   getRestConcurrency [(CONCURRENTCY_CONFIG_KEY_NAME, '' -3 threads'')] 4 = Num (- 3) \<and>
   parsesTo ''9007199254740993'' 9007199254740993 \<and>
   getRestConcurrency [(CONCURRENTCY_CONFIG_KEY_NAME, ''9007199254740993'')] 4
     = numberValue 9007199254740993"
proof -
  have t0: "nonNumeric ''many''"
    by (simp add: denotedInt_None_iff [symmetric] denotedInt_eval)
  have t1: "parsesTo ''0'' 0"
    by (simp add: denotedInt_Some_iff [symmetric] denotedInt_eval)
  have t2: "parsesTo ''8'' 8"
    by (simp add: denotedInt_Some_iff [symmetric] denotedInt_eval)
  have t3: "parsesTo '' -3 threads'' (- 3)"
    by (simp add: denotedInt_Some_iff [symmetric] denotedInt_eval)
  note t4 = parsesTo_2_53_1
  have r0: "getRestConcurrency [] 4 = Num 4"
    using getRestConcurrency_resolution [of "[]" 4] by simp
  have r1: "getRestConcurrency [(CONCURRENTCY_CONFIG_KEY_NAME, ''many'')] 4 = Num 4"
    using getRestConcurrency_resolution
      [of "[(CONCURRENTCY_CONFIG_KEY_NAME, ''many'')]" 4 "''many''"] t0
    by simp
  have r2: "getRestConcurrency [(CONCURRENTCY_CONFIG_KEY_NAME, ''0'')] 4 = Num 4"
    using getRestConcurrency_resolution
      [of "[(CONCURRENTCY_CONFIG_KEY_NAME, ''0'')]" 4 "''0''"] t1
    by (simp add: numberValue_exact)
  have r3: "getRestConcurrency [(CONCURRENTCY_CONFIG_KEY_NAME, ''8'')] 4 = Num 8"
    using getRestConcurrency_resolution
      [of "[(CONCURRENTCY_CONFIG_KEY_NAME, ''8'')]" 4 "''8''" 8] t2
    by (simp add: numberValue_exact)
  have r4: "getRestConcurrency [(CONCURRENTCY_CONFIG_KEY_NAME, '' -3 threads'')] 4 = Num (- 3)"
    using getRestConcurrency_resolution
      [of "[(CONCURRENTCY_CONFIG_KEY_NAME, '' -3 threads'')]" 4 "'' -3 threads''" "- 3"] t3
    by (simp add: numberValue_exact)
  have r5: "getRestConcurrency [(CONCURRENTCY_CONFIG_KEY_NAME, ''9007199254740993'')] 4
      = numberValue 9007199254740993"
    using getRestConcurrency_resolution
      [of "[(CONCURRENTCY_CONFIG_KEY_NAME, ''9007199254740993'')]" 4 "''9007199254740993''"
        9007199254740993] t4
    by simp
  from t0 t1 t2 t3 t4 r0 r1 r2 r3 r4 r5 show ?thesis by blast
qed




subsection \<open>The operation timeout\<close>

text \<open>
  Claim C8, as stated. The claim that the parsed positive integer is returned fails for
  the digit runs that no double holds: a one followed by 309 zeros comes back as
  \<open>Infinity\<close>, which is no integer, and \<open>2^53 + 1\<close> comes back as \<open>2^53\<close>.
\<close>

theorem getRestOperationTimeout_rounding_counterexample:
  "parsesTo (CHR ''1'' # replicate 309 CHR ''0'') (10 ^ 309) \<and>
   getRestOperationTimeout [(OPERATION_TIMEOUT_CONFIG_KEY_NAME, CHR ''1'' # replicate 309 CHR ''0'')]
     = Some PosInfinity \<and>
   parsesTo ''9007199254740993'' 9007199254740993 \<and>
   getRestOperationTimeout [(OPERATION_TIMEOUT_CONFIG_KEY_NAME, ''9007199254740993'')]
     = Some (Num 9007199254740992) \<and>
   getRestOperationTimeout [(OPERATION_TIMEOUT_CONFIG_KEY_NAME, ''9007199254740993'')]
     \<noteq> Some (Num 9007199254740993)"
proof -
  have a: "getRestOperationTimeout [(OPERATION_TIMEOUT_CONFIG_KEY_NAME, ''9007199254740993'')]
      = Some (Num 9007199254740992)"
    using getRestOperationTimeout_parsed
      [of "[(OPERATION_TIMEOUT_CONFIG_KEY_NAME, ''9007199254740993'')]" "''9007199254740993''"
        9007199254740993]
      parsesTo_2_53_1
    by (simp add: numberValue_2_53_1)
  then have a': "getRestOperationTimeout
      [(OPERATION_TIMEOUT_CONFIG_KEY_NAME, ''9007199254740993'')] \<noteq> Some (Num 9007199254740993)"
    by simp
  have m: "map_of [(OPERATION_TIMEOUT_CONFIG_KEY_NAME, CHR ''1'' # replicate 309 CHR ''0'')]
      OPERATION_TIMEOUT_CONFIG_KEY_NAME = Some (CHR ''1'' # replicate 309 CHR ''0'')"
    by simp
  have pos: "\<not> (10::int) ^ 309 \<le> 0" by simp
  have "getRestOperationTimeout
      [(OPERATION_TIMEOUT_CONFIG_KEY_NAME, CHR ''1'' # replicate 309 CHR ''0'')]
      = Some (numberValue (10 ^ 309))"
    using getRestOperationTimeout_parsed [OF m parsesTo_one_zeros [of 309]] pos
    by (simp only: if_False)
  then have b: "getRestOperationTimeout
      [(OPERATION_TIMEOUT_CONFIG_KEY_NAME, CHR ''1'' # replicate 309 CHR ''0'')] = Some PosInfinity"
    by (simp only: numberValue_10_309)
  from parsesTo_one_zeros [of 309] b parsesTo_2_53_1 a a' show ?thesis
    by (intro conjI)
qed

text \<open>
  Claim C8, amended. \<open>getRestOperationTimeout\<close> returns \<open>null\<close> when the timeout
  key is absent, non-numeric or parses to a value that is not positive; when it parses to
  a positive integer \<open>n\<close> it returns the Number value of \<open>n\<close>, which is \<open>n\<close>
  itself whenever \<open>n \<le> 2^53\<close>.
\<close>

theorem getRestOperationTimeout_resolution:
  "(map_of cfg OPERATION_TIMEOUT_CONFIG_KEY_NAME = None \<longrightarrow>
      getRestOperationTimeout cfg = None) \<and>
   (map_of cfg OPERATION_TIMEOUT_CONFIG_KEY_NAME = Some s \<and> nonNumeric s \<longrightarrow>
      getRestOperationTimeout cfg = None) \<and>
   (map_of cfg OPERATION_TIMEOUT_CONFIG_KEY_NAME = Some s \<and> parsesTo s n \<and> n \<le> 0 \<longrightarrow>
      getRestOperationTimeout cfg = None) \<and>
   (map_of cfg OPERATION_TIMEOUT_CONFIG_KEY_NAME = Some s \<and> parsesTo s n \<and> 0 < n \<longrightarrow>
      getRestOperationTimeout cfg = Some (numberValue n)) \<and>
   (map_of cfg OPERATION_TIMEOUT_CONFIG_KEY_NAME = Some s \<and> parsesTo s n \<and> 0 < n \<and>
      n \<le> 2 ^ 53 \<longrightarrow>
      getRestOperationTimeout cfg = Some (Num n))"
proof (intro conjI impI)
  assume "map_of cfg OPERATION_TIMEOUT_CONFIG_KEY_NAME = None"
  then show "getRestOperationTimeout cfg = None"
    by (rule getRestOperationTimeout_absent)
next
  assume "map_of cfg OPERATION_TIMEOUT_CONFIG_KEY_NAME = Some s \<and> nonNumeric s"
  then show "getRestOperationTimeout cfg = None"
    using getRestOperationTimeout_nonNumeric by blast
next
  assume "map_of cfg OPERATION_TIMEOUT_CONFIG_KEY_NAME = Some s \<and> parsesTo s n \<and> n \<le> 0"
  then show "getRestOperationTimeout cfg = None"
    using getRestOperationTimeout_parsed [of cfg s n] by simp
next
  assume "map_of cfg OPERATION_TIMEOUT_CONFIG_KEY_NAME = Some s \<and> parsesTo s n \<and> 0 < n"
  then show "getRestOperationTimeout cfg = Some (numberValue n)"
    using getRestOperationTimeout_parsed [of cfg s n] by simp
next
  assume "map_of cfg OPERATION_TIMEOUT_CONFIG_KEY_NAME = Some s \<and> parsesTo s n \<and> 0 < n \<and>
    n \<le> 2 ^ 53"
  then show "getRestOperationTimeout cfg = Some (Num n)"
    using getRestOperationTimeout_parsed [of cfg s n] numberValue_exact [of n] by simp
qed

text \<open>
  The key unset, a text with no number, zero, a negative value and thirty seconds.
\<close>

theorem getRestOperationTimeout_resolution_witness:
  "getRestOperationTimeout [] = None \<and>
   nonNumeric ''soon'' \<and>
   getRestOperationTimeout [(OPERATION_TIMEOUT_CONFIG_KEY_NAME, ''soon'')] = None \<and>
   parsesTo ''0'' 0 \<and>
   getRestOperationTimeout [(OPERATION_TIMEOUT_CONFIG_KEY_NAME, ''0'')] = None \<and>
   parsesTo ''-500'' (- 500) \<and>
   getRestOperationTimeout [(OPERATION_TIMEOUT_CONFIG_KEY_NAME, ''-500'')] = None \<and>
   parsesTo ''30000'' 30000 \<and>
   getRestOperationTimeout [(OPERATION_TIMEOUT_CONFIG_KEY_NAME, ''30000'')] = Some (Num 30000) \<and>
   parsesTo ''9007199254740993'' 9007199254740993 \<and>
   getRestOperationTimeout [(OPERATION_TIMEOUT_CONFIG_KEY_NAME, ''9007199254740993'')]
     = Some (numberValue 9007199254740993)"
proof -
  have t0: "nonNumeric ''soon''"
    by (simp add: denotedInt_None_iff [symmetric] denotedInt_eval)
  have t1: "parsesTo ''0'' 0"
    by (simp add: denotedInt_Some_iff [symmetric] denotedInt_eval)
  have t2: "parsesTo ''-500'' (- 500)"
    by (simp add: denotedInt_Some_iff [symmetric] denotedInt_eval)
  have t3: "parsesTo ''30000'' 30000"
    by (simp add: denotedInt_Some_iff [symmetric] denotedInt_eval)
  note t4 = parsesTo_2_53_1
  have r0: "getRestOperationTimeout [] = None"
    using getRestOperationTimeout_resolution [of "[]"] by simp
  have r1: "getRestOperationTimeout [(OPERATION_TIMEOUT_CONFIG_KEY_NAME, ''soon'')] = None"
    using getRestOperationTimeout_resolution
      [of "[(OPERATION_TIMEOUT_CONFIG_KEY_NAME, ''soon'')]" "''soon''"] t0
    by simp
  have r2: "getRestOperationTimeout [(OPERATION_TIMEOUT_CONFIG_KEY_NAME, ''0'')] = None"
    using getRestOperationTimeout_resolution
      [of "[(OPERATION_TIMEOUT_CONFIG_KEY_NAME, ''0'')]" "''0''" 0] t1
    by (simp add: numberValue_exact)
  have r3: "getRestOperationTimeout [(OPERATION_TIMEOUT_CONFIG_KEY_NAME, ''-500'')] = None"
    using getRestOperationTimeout_resolution
      [of "[(OPERATION_TIMEOUT_CONFIG_KEY_NAME, ''-500'')]" "''-500''" "- 500"] t2
    by (simp add: numberValue_exact)
  have r4: "getRestOperationTimeout [(OPERATION_TIMEOUT_CONFIG_KEY_NAME, ''30000'')]
      = Some (Num 30000)"
    using getRestOperationTimeout_resolution
      [of "[(OPERATION_TIMEOUT_CONFIG_KEY_NAME, ''30000'')]" "''30000''" 30000] t3
    by (simp add: numberValue_exact)
  have r5: "getRestOperationTimeout [(OPERATION_TIMEOUT_CONFIG_KEY_NAME, ''9007199254740993'')]
      = Some (numberValue 9007199254740993)"
    using getRestOperationTimeout_resolution
      [of "[(OPERATION_TIMEOUT_CONFIG_KEY_NAME, ''9007199254740993'')]" "''9007199254740993''"
        9007199254740993] t4
    by simp
  from t0 t1 t2 t3 t4 r0 r1 r2 r3 r4 r5 show ?thesis by blast
qed

section \<open>Properties of the timeout injection\<close>

lemma init_operationTimeout:
  "(case operationTimeout (init h st) of
      None \<Rightarrow> True
    | Some t \<Rightarrow> \<not> isNaN t \<and> greaterThanZero t)"
proof -
  have "\<not> isNaN t \<Longrightarrow> \<not> lessEq t (Num 0) \<Longrightarrow> greaterThanZero t" for t
    by (cases t) simp_all
  then show ?thesis
    by (simp add: init_def Let_def getRestOperationTimeout_def)
qed

lemma sampleHost_timeout: "operationTimeout (init sampleHost initialState) = Some (Num 30000)"
  by (simp add: init_def sampleHost_def getRestOperationTimeout_def cfgToString_def
      OPERATION_TIMEOUT_CONFIG_KEY_NAME_def CONCURRENTCY_CONFIG_KEY_NAME_def parseInt_eval)

lemma setOperationTimeout_injects:
  assumes "map_of obj ''timeoutintervalInMs'' = None" and "0 < T"
    and "operationTimeout st = Some (Num T)"
  shows "setOperationTimeout st (JObject obj) =
           Inr (AList.update ''timeoutIntervalInMs'' (VNumber (Num T)) obj)"
  using assms by (simp add: setOperationTimeout_def getProperty_def)

text \<open>
  Claim C1. With the configured override of 30000 ms, an options object whose caller set
  \<open>timeoutIntervalInMs\<close> to 5000 comes back with 30000: the guard reads the property
  \<open>timeoutintervalInMs\<close>, which the caller did not set, so the value of the caller is
  overwritten where the claim says it is preserved.
\<close>

theorem setOperationTimeout_overwrites_caller_timeout:
  "setOperationTimeout (init sampleHost initialState)
     (JObject [(''timeoutIntervalInMs'', VNumber (Num 5000))])
   = Inr [(''timeoutIntervalInMs'', VNumber (Num 30000))]"
  by (simp add: setOperationTimeout_def getProperty_def sampleHost_timeout)

text \<open>
  Claim C10. \<open>setOperationTimeout\<close> changes at most the field
  \<open>timeoutIntervalInMs\<close> of its options argument: every other field reads the same
  after the call as before it.
\<close>

theorem setOperationTimeout_frame:
  assumes "setOperationTimeout st (JObject obj) = Inr obj'"
    and "k \<noteq> ''timeoutIntervalInMs''"
  shows "map_of obj' k = map_of obj k"
  using assms
  by (auto simp add: setOperationTimeout_def update_conv' split: option.splits if_splits)

theorem setOperationTimeout_frame_witness:
  "setOperationTimeout (init sampleHost initialState)
     (JObject [(''accessConditions'', VObject 1), (''timeoutIntervalInMs'', VNull)])
     = Inr [(''accessConditions'', VObject 1), (''timeoutIntervalInMs'', VNumber (Num 30000))] \<and>
   ''accessConditions'' \<noteq> ''timeoutIntervalInMs'' \<and>
   map_of [(''accessConditions'', VObject 1), (''timeoutIntervalInMs'', VNumber (Num 30000))]
     ''accessConditions''
   = map_of [(''accessConditions'', VObject 1), (''timeoutIntervalInMs'', VNull)]
     ''accessConditions''"
proof -
  have run: "setOperationTimeout (init sampleHost initialState)
     (JObject [(''accessConditions'', VObject 1), (''timeoutIntervalInMs'', VNull)])
     = Inr [(''accessConditions'', VObject 1), (''timeoutIntervalInMs'', VNumber (Num 30000))]"
    by (simp add: setOperationTimeout_def getProperty_def sampleHost_timeout)
  have ne: "''accessConditions'' \<noteq> ''timeoutIntervalInMs''" by simp
  from setOperationTimeout_frame [OF run ne] run ne show ?thesis by blast
qed

section \<open>Properties of the dispatcher\<close>

subsection \<open>Lower-casing and matching without regard to case\<close>

lemma toLowerCaseChar_eq_letter:
  assumes "lowerLetter l"
  shows "(toLowerCaseChar c = l) = (c = l \<or> (of_char c :: nat) + 32 = of_char l)"
proof -
  have inj: "\<And>a b :: char. (a = b) = ((of_char a :: nat) = of_char b)"
    by simp
  show ?thesis
  proof (cases "(65 \<le> (of_char c :: nat) \<and> (of_char c :: nat) \<le> 90) \<or>
      (192 \<le> (of_char c :: nat) \<and> (of_char c :: nat) \<le> 222 \<and> (of_char c :: nat) \<noteq> 215)")
    case True
    then have low: "toLowerCaseChar c = char_of ((of_char c :: nat) + 32)"
      by (simp add: toLowerCaseChar_def Let_def)
    have "(of_char (char_of ((of_char c :: nat) + 32)) :: nat) = of_char c + 32"
      using True by (auto simp add: of_char_of)
    with low have "(of_char (toLowerCaseChar c) :: nat) = of_char c + 32" by simp
    with assms True show ?thesis
      unfolding lowerLetter_def inj [of "toLowerCaseChar c" l] inj [of c l] by auto
  next
    case False
    then have "toLowerCaseChar c = c"
      unfolding toLowerCaseChar_def Let_def by (simp only: if_False)
    with assms False show ?thesis
      unfolding lowerLetter_def inj [of c l] by auto
  qed
qed

lemma toLowerCase_eq_iff:
  "list_all lowerLetter name' \<Longrightarrow> (toLowerCase kind = name') = matchesIgnoringCase kind name'"
proof (induction name' arbitrary: kind)
  case Nil
  show ?case by (simp add: toLowerCase_def matchesIgnoringCase_def)
next
  case (Cons l ls)
  show ?case
  proof (cases kind)
    case Nil
    then show ?thesis by (simp add: toLowerCase_def matchesIgnoringCase_def)
  next
    case (Cons c cs)
    have "(toLowerCase cs = ls) = matchesIgnoringCase cs ls"
      using Cons.prems Cons.IH by simp
    moreover have "(toLowerCaseChar c = l) = (c = l \<or> (of_char c :: nat) + 32 = of_char l)"
      using Cons.prems by (simp add: toLowerCaseChar_eq_letter)
    ultimately show ?thesis
      using Cons by (simp add: toLowerCase_def matchesIgnoringCase_def)
  qed
qed

lemma service_names_lower:
  "list_all lowerLetter ''blob''" "list_all lowerLetter ''queue''" "list_all lowerLetter ''table''"
  by (simp_all add: lowerLetter_def)

lemma recognizedKind_iff:
  "recognizedKind kind =
     (toLowerCase kind = OperationType_Blob \<or> toLowerCase kind = OperationType_Table \<or>
      toLowerCase kind = OperationType_Queue)"
  unfolding recognizedKind_def OperationType_Blob_def OperationType_Table_def
    OperationType_Queue_def
  using toLowerCase_eq_iff [OF service_names_lower(1), of kind]
    toLowerCase_eq_iff [OF service_names_lower(2), of kind]
    toLowerCase_eq_iff [OF service_names_lower(3), of kind]
  by blast

lemma selectService_unrecognized:
  "\<not> recognizedKind kind \<Longrightarrow>
     selectService h (toLowerCase kind) =
       Inl (Thrown (''Invalid azure operation type : '' @ toLowerCase kind))"
  by (simp add: recognizedKind_iff selectService_def)

lemma notInvocable_iff:
  "notInvocable service methodName =
     (falsy (map_of service methodName) \<or> \<not> isFunction (map_of service methodName))"
proof (cases "map_of service methodName")
  case None
  then show ?thesis by (simp add: notInvocable_def)
next
  case (Some m)
  then show ?thesis by (cases m) (simp_all add: notInvocable_def)
qed

subsection \<open>Runs on the sample host\<close>

lemmas sampleHost_eval =
  sampleHost_def sampleService_def initialState_def init_def selectService_def
  getBlobService_def getTableService_def getQueueService_def getStorageServiceSettings_def
  noConnectionString_def raised_def OperationType_Blob_def OperationType_Table_def
  OperationType_Queue_def toLowerCase_def toLowerCaseChar_def char_of_eq_iff orEmpty_def
  Let_def

lemma sampleHost_dispatch:
  "performStorageOperation sampleHost (init sampleHost initialState)
     (JObject \<lparr>type = Some ''Blob'', operation = Some ''createContainer''\<rparr>) [''photos'']
   = Inr (Some ''created'')"
  by (simp add: performStorageOperation_def sampleHost_eval)

lemma sampleHost_before_init:
  "performStorageOperation sampleHost initialState
     (JObject \<lparr>type = Some ''Blob'', operation = Some ''createContainer''\<rparr>) [''photos'']
   = Inl (TypeError ''restFunnel'')"
  by (simp add: performStorageOperation_def sampleHost_eval)

subsection \<open>Validation of the descriptor\<close>

text \<open>
  Claim C4. For a descriptor whose service kind matches none of blob, queue and table
  without regard to case, \<open>performStorageOperation\<close> throws the invalid operation type
  message, which carries the (lower-cased) kind; nothing wraps it on the way to the caller.
\<close>

theorem performStorageOperation_invalid_type:
  assumes "\<not> recognizedKind (orEmpty (type so))"
  shows "performStorageOperation h st (JObject so) operationArgs =
           Inl (Thrown (''Invalid azure operation type : '' @ toLowerCase (orEmpty (type so))))"
proof -
  have "selectService h (toLowerCase (orEmpty (type so))) =
          Inl (Thrown (''Invalid azure operation type : '' @ toLowerCase (orEmpty (type so))))"
    using assms by (rule selectService_unrecognized)
  then show ?thesis
    by (simp add: performStorageOperation_def Let_def)
qed

theorem performStorageOperation_invalid_type_witness:
  "\<not> recognizedKind ''ftp'' \<and>
   performStorageOperation sampleHost (init sampleHost initialState)
     (JObject \<lparr>type = Some ''ftp'', operation = Some ''createContainer''\<rparr>) [''photos'']
   = Inl (Thrown ''Invalid azure operation type : ftp'')"
proof -
  have k: "\<not> recognizedKind (orEmpty (type \<lparr>type = Some ''ftp'', operation = Some ''createContainer''\<rparr>))"
    by (simp add: recognizedKind_def matchesIgnoringCase_def orEmpty_def)
  from performStorageOperation_invalid_type
    [OF k, of sampleHost "init sampleHost initialState" "[''photos'']"] k
  show ?thesis
    by (simp add: orEmpty_def toLowerCase_def toLowerCaseChar_def char_of_eq_iff)
qed

text \<open>
  Claim C5. For a descriptor with a recognized service kind whose method name is absent
  or not invocable on the resolved service handle, \<open>performStorageOperation\<close> throws
  the invalid operation message, which carries the method name and the service kind.
\<close>

theorem performStorageOperation_invalid_operation:
  assumes "recognizedKind (orEmpty (type so))"
    and "selectService h (toLowerCase (orEmpty (type so))) = Inr service"
    and "notInvocable service (orEmpty (operation so))"
  shows "performStorageOperation h st (JObject so) operationArgs =
           Inl (Thrown (''Invalid operation '' @ dquote @ orEmpty (operation so) @ dquote @
                        '' in '' @ toLowerCase (orEmpty (type so)) @ '' service''))"
  using assms(2) assms(3) [unfolded notInvocable_iff]
  by (simp add: performStorageOperation_def Let_def)

theorem performStorageOperation_invalid_operation_witness:
  "recognizedKind ''BLOB'' \<and>
   selectService sampleHost (toLowerCase ''BLOB'') = Inr sampleService \<and>
   notInvocable sampleService ''nonexistentMethod'' \<and>
   performStorageOperation sampleHost (init sampleHost initialState)
     (JObject \<lparr>type = Some ''BLOB'', operation = Some ''nonexistentMethod''\<rparr>) [''photos'']
   = Inl (Thrown (''Invalid operation '' @ dquote @ ''nonexistentMethod'' @ dquote @
                  '' in blob service''))"
proof -
  let ?so = "\<lparr>type = Some ''BLOB'', operation = Some ''nonexistentMethod''\<rparr>"
  have k: "recognizedKind (orEmpty (type ?so))"
    by (simp add: recognizedKind_def matchesIgnoringCase_def orEmpty_def)
  have s: "selectService sampleHost (toLowerCase (orEmpty (type ?so))) = Inr sampleService"
    by (simp add: sampleHost_eval)
  have m: "notInvocable sampleService (orEmpty (operation ?so))"
    by (simp add: notInvocable_def sampleService_def orEmpty_def)
  from performStorageOperation_invalid_operation
    [OF k s m, of "init sampleHost initialState" "[''photos'']"] k s m
  show ?thesis
    by (simp add: orEmpty_def toLowerCase_def toLowerCaseChar_def char_of_eq_iff)
qed

text \<open>
  Claim C7. Called with the descriptor \<open>null\<close>, \<open>performStorageOperation\<close>
  returns at once with no result and no error, whatever the host, the module state and
  the arguments are.
\<close>

theorem performStorageOperation_null:
  "performStorageOperation h st JNull operationArgs = Inr None"
  by (simp add: performStorageOperation_def)

theorem performStorageOperation_null_witness:
  "performStorageOperation sampleHost initialState JNull [''photos''] = Inr None"
  using performStorageOperation_null [of sampleHost initialState "[''photos'']"] .

text \<open>
  Claim C9. The early return applies to \<open>null\<close> only: the call returns without a
  result exactly when the descriptor is \<open>null\<close>, and for the descriptor
  \<open>undefined\<close> it fails with the \<open>TypeError\<close> of reading
  \<open>storageOperation.type\<close>, whatever the host, the state and the arguments are.
\<close>

theorem performStorageOperation_undefined:
  "performStorageOperation h st JUndefined operationArgs =
     Inl (TypeError ''storageOperation.type'') \<and>
   (performStorageOperation h st d operationArgs = Inr None) = (d = JNull)"
proof -
  have "performStorageOperation h st (JObject so) operationArgs \<noteq> Inr None" for so
    by (simp add: performStorageOperation_def Let_def split: sum.splits option.splits)
  then show ?thesis
    by (cases d) (simp_all add: performStorageOperation_def)
qed

theorem performStorageOperation_undefined_witness:
  "performStorageOperation sampleHost (init sampleHost initialState) JUndefined [''photos''] =
     Inl (TypeError ''storageOperation.type'') \<and>
   performStorageOperation sampleHost (init sampleHost initialState) JUndefined [''photos'']
     \<noteq> Inr None"
  using performStorageOperation_undefined
    [of sampleHost "init sampleHost initialState" "[''photos'']" JUndefined]
  by simp

end
